theory Spec2Isabelle
  imports Main
begin

section \<open>git-sync: configuration, authorisation, sync engine and request handler\<close>

text \<open>
  A shallow embedding of \<^verbatim>\<open>main.go\<close> of git-sync. The source file holds two variants
  of the program; the one with \<^verbatim>\<open>Tokens\<close> and \<^verbatim>\<open>GlobalTokens\<close> (the one the README
  documents) is modelled in full, and of the variant with \<^verbatim>\<open>ApiKeys\<close> and
  \<^verbatim>\<open>MasterKey\<close> only \<^verbatim>\<open>processConfig\<close>, under names ending in \<^verbatim>\<open>_v1\<close>.

  Go strings are \<^typ>\<open>string\<close>, slices are lists, a Go \<^verbatim>\<open>error\<close> is the text of its
  message (\<^verbatim>\<open>fmt.Errorf\<close> with \<^verbatim>\<open>%v\<close> concatenates messages), and a function returning
  \<^verbatim>\<open>(T, error)\<close> returns \<^typ>\<open>string + 'a\<close> with \<^term>\<open>Inl\<close> for the error.
\<close>

subsection \<open>Configuration model\<close>

record repositoryConfig =
  Name :: string
  Local :: string
  Remote :: string
  Branch :: string
  Tokens :: "string list"

record serverConfig =
  Address :: string
  Port :: string
  GlobalTokens :: "string list"
  Repositories :: "repositoryConfig list"

record repositoryRequest =
  ReqName :: string

text \<open>\<^verbatim>\<open>slices.Contains\<close>: a linear scan for an equal element.\<close>

primrec slicesContains :: "string list \<Rightarrow> string \<Rightarrow> bool" where
  "slicesContains [] v = False"
| "slicesContains (x # xs) v = (if x = v then True else slicesContains xs v)"

definition validToken :: "repositoryConfig \<Rightarrow> string \<Rightarrow> bool" where
  "validToken rc key = slicesContains (Tokens rc) key"

text \<open>The range loops of \<^verbatim>\<open>getRepository\<close> and \<^verbatim>\<open>tokenExists\<close>, over the slice.\<close>

primrec findRepository :: "repositoryConfig list \<Rightarrow> string \<Rightarrow> repositoryConfig option" where
  "findRepository [] name = None"
| "findRepository (r # rs) name = (if Name r = name then Some r else findRepository rs name)"

definition getRepository :: "serverConfig \<Rightarrow> string \<Rightarrow> string + repositoryConfig" where
  "getRepository sc name =
     (case findRepository (Repositories sc) name of
        Some r \<Rightarrow> Inr r
      | None \<Rightarrow> Inl (''failed to find configured repository with name: '' @ name))"

primrec anyRepositoryHas :: "repositoryConfig list \<Rightarrow> string \<Rightarrow> bool" where
  "anyRepositoryHas [] key = False"
| "anyRepositoryHas (r # rs) key =
     (if slicesContains (Tokens r) key then True else anyRepositoryHas rs key)"

definition tokenExists :: "serverConfig \<Rightarrow> string \<Rightarrow> bool" where
  "tokenExists sc key = anyRepositoryHas (Repositories sc) key"

subsection \<open>Configuration post-processing\<close>

text \<open>
  The inner loop of \<^verbatim>\<open>processConfig\<close>,
  \<^verbatim>\<open>for _, t := range c.GlobalTokens { c.Repositories[i].Tokens = append(r.Tokens, t) }\<close>.
  \<^verbatim>\<open>r\<close> is the copy of element \<^verbatim>\<open>i\<close> that the outer range loop made, so \<^verbatim>\<open>r.Tokens\<close>
  keeps its length through the loop and every pass stores \<^verbatim>\<open>r.Tokens\<close> followed by the one
  token \<^verbatim>\<open>t\<close>. The index is in range wherever the loop runs (see \<open>processRepositories\<close>).
\<close>

primrec inheritTokens ::
  "nat \<Rightarrow> repositoryConfig \<Rightarrow> string list \<Rightarrow> repositoryConfig list \<Rightarrow> repositoryConfig list"
where
  "inheritTokens i r [] reps = reps"
| "inheritTokens i r (t # ts) reps =
     inheritTokens i r ts (reps[i := (reps ! i)\<lparr>Tokens := Tokens r @ [t]\<rparr>])"

text \<open>
  The outer loop \<^verbatim>\<open>for i, r := range c.Repositories\<close>. The length \<open>n\<close> of the slice is
  read once, before the first pass. \<^verbatim>\<open>r.Branch = "main"\<close> assigns to the copy \<^verbatim>\<open>r\<close>
  only, of which the rest of the pass reads \<^verbatim>\<open>r.Tokens\<close>. A failed check returns the
  error at once; \<^verbatim>\<open>main\<close> then exits, so the configuration as changed so far is never
  used and the model returns the error alone.
\<close>

function processRepositories :: "nat \<Rightarrow> nat \<Rightarrow> serverConfig \<Rightarrow> string + serverConfig" where
  "processRepositories n i c =
     (if i < n then
        (let r = Repositories c ! i in
         if Name r = '''' then Inl ''repository config missing name value''
         else if Local r = '''' then Inl ''repository config missing local value''
         else if Remote r = '''' then Inl ''repository config missing remote value''
         else
           (let r' = (if Branch r = '''' then r\<lparr>Branch := ''main''\<rparr> else r) in
            processRepositories n (Suc i)
              (if length (GlobalTokens c) > 0
               then c\<lparr>Repositories := inheritTokens i r' (GlobalTokens c) (Repositories c)\<rparr>
               else c)))
      else Inr c)"
  by pat_completeness auto
termination
  by (relation "measure (\<lambda>(n, i, c). n - i)") auto

declare processRepositories.simps [simp del]

definition processConfig :: "serverConfig \<Rightarrow> string + serverConfig" where
  "processConfig c =
     (let c1 = (if Address c = '''' then c\<lparr>Address := ''0.0.0.0''\<rparr> else c);
          c2 = (if Port c1 = '''' then c1\<lparr>Port := ''8654''\<rparr> else c1)
      in processRepositories (length (Repositories c2)) 0 c2)"

text \<open>
  \<^verbatim>\<open>processConfig\<close> of the variant with \<^verbatim>\<open>ApiKeys\<close> and one \<^verbatim>\<open>MasterKey\<close>. Its
  first statement assigns the empty string to an empty \<^verbatim>\<open>Address\<close>, and the body of
  \<^verbatim>\<open>if c.LogDirectory == ""\<close> is empty.
\<close>

record repositoryConfig_v1 =
  Name_v1 :: string
  Local_v1 :: string
  Remote_v1 :: string
  Branch_v1 :: string
  ApiKeys :: "string list"

record serverConfig_v1 =
  Address_v1 :: string
  Port_v1 :: string
  MasterKey :: string
  Repositories_v1 :: "repositoryConfig_v1 list"
  LogDirectory :: string

function processRepositories_v1 ::
  "nat \<Rightarrow> nat \<Rightarrow> serverConfig_v1 \<Rightarrow> string + serverConfig_v1"
where
  "processRepositories_v1 n i c =
     (if i < n then
        (let r = Repositories_v1 c ! i in
         if Name_v1 r = '''' then Inl ''repository config missing name value''
         else if Local_v1 r = '''' then Inl ''repository config missing local value''
         else if Remote_v1 r = '''' then Inl ''repository config missing remote value''
         else
           (let r' = (if Branch_v1 r = '''' then r\<lparr>Branch_v1 := ''main''\<rparr> else r) in
            processRepositories_v1 n (Suc i)
              (if MasterKey c \<noteq> ''''
               then c\<lparr>Repositories_v1 :=
                      (Repositories_v1 c)
                        [i := (Repositories_v1 c ! i)\<lparr>ApiKeys := ApiKeys r' @ [MasterKey c]\<rparr>]\<rparr>
               else c)))
      else Inr c)"
  by pat_completeness auto
termination
  by (relation "measure (\<lambda>(n, i, c). n - i)") auto

declare processRepositories_v1.simps [simp del]

definition processConfig_v1 :: "serverConfig_v1 \<Rightarrow> string + serverConfig_v1" where
  "processConfig_v1 c =
     (let c1 = (if Address_v1 c = '''' then c\<lparr>Address_v1 := ''''\<rparr> else c);
          c2 = (if Port_v1 c1 = '''' then c1\<lparr>Port_v1 := ''8654''\<rparr> else c1);
          c3 = (if LogDirectory c2 = '''' then c2 else c2)
      in processRepositories_v1 (length (Repositories_v1 c3)) 0 c3)"

subsection \<open>The process boundary and the sync engine\<close>

text \<open>
  \<^verbatim>\<open>exec.Command(name, args...)\<close> with \<^verbatim>\<open>cmd.Dir\<close> set is a \<open>command\<close>. What
  \<^verbatim>\<open>cmd.Run()\<close> does is outside the program: it is a parameter \<open>run\<close>, which from a
  command and the state of the world \<^typ>\<open>'w\<close> (file system, network, remote) gives
  \<^term>\<open>None\<close> for exit status zero or the error's message, and the world afterwards. The
  model records every command run, in order, in \<open>invocations\<close>.
\<close>

record command =
  Args :: "string list"
  Dir :: string

type_synonym 'w runner = "command \<Rightarrow> 'w \<Rightarrow> string option \<times> 'w"

record 'w system =
  world :: 'w
  invocations :: "command list"

definition cmdRun :: "'w runner \<Rightarrow> command \<Rightarrow> 'w system \<Rightarrow> string option \<times> 'w system" where
  "cmdRun run cmd s =
     (case run cmd (world s) of
        (err, w') \<Rightarrow> (err, \<lparr>world = w', invocations = invocations s @ [cmd]\<rparr>))"

definition fetchRepository ::
  "'w runner \<Rightarrow> repositoryConfig \<Rightarrow> 'w system \<Rightarrow> string option \<times> 'w system"
where
  "fetchRepository run r s =
     (case cmdRun run \<lparr>Args = [''git'', ''fetch'', ''origin'', Branch r], Dir = Local r\<rparr> s of
        (Some err, s') \<Rightarrow> (Some (''failed to fetch origin: '' @ err), s')
      | (None, s') \<Rightarrow> (None, s'))"

definition resetRepository ::
  "'w runner \<Rightarrow> repositoryConfig \<Rightarrow> 'w system \<Rightarrow> string option \<times> 'w system"
where
  "resetRepository run r s =
     (let remote = ''origin/'' @ Branch r in
      case cmdRun run \<lparr>Args = [''git'', ''reset'', ''--hard'', remote], Dir = Local r\<rparr> s of
        (Some err, s') \<Rightarrow> (Some (''failed to reset origin: '' @ err), s')
      | (None, s') \<Rightarrow> (None, s'))"

definition cleanRepository ::
  "'w runner \<Rightarrow> repositoryConfig \<Rightarrow> 'w system \<Rightarrow> string option \<times> 'w system"
where
  "cleanRepository run r s =
     (case cmdRun run \<lparr>Args = [''git'', ''clean'', ''-fdx''], Dir = Local r\<rparr> s of
        (Some err, s') \<Rightarrow> (Some (''failed to clean untracked files: '' @ err), s')
      | (None, s') \<Rightarrow> (None, s'))"

definition syncRepository ::
  "'w runner \<Rightarrow> repositoryConfig \<Rightarrow> 'w system \<Rightarrow> string option \<times> 'w system"
where
  "syncRepository run r s =
     (case fetchRepository run r s of
        (Some err, s1) \<Rightarrow> (Some (''failed to sync repository: '' @ err), s1)
      | (None, s1) \<Rightarrow>
          (case resetRepository run r s1 of
             (Some err, s2) \<Rightarrow> (Some (''failed to sync repository: '' @ err), s2)
           | (None, s2) \<Rightarrow>
               (case cleanRepository run r s2 of
                  (Some err, s3) \<Rightarrow> (Some (''failed to clean repository: '' @ err), s3)
                | (None, s3) \<Rightarrow> (None, s3))))"

subsection \<open>The HTTP boundary\<close>

text \<open>
  The part of \<^verbatim>\<open>net/http\<close> the handler uses, as its documentation gives it.
  \<^verbatim>\<open>WriteHeader\<close> fixes the status of the response, once; a write before any
  \<^verbatim>\<open>WriteHeader\<close> sends status 200 first; and a handler that returns without either gets
  status 200 and an empty body from the server (\<open>finishRequest\<close>). The field
  \<open>body\<close> collects the bytes the handler writes; \<open>sentBody\<close> below is the body sent.
  \<^verbatim>\<open>Header.Get\<close> gives the first value stored under a name, and the empty string when
  there is none; names are matched in canonical form, so the map of the model is indexed
  by the handler's own spelling of the name.
\<close>

record responseWriter =
  wroteHeader :: bool
  status :: nat
  body :: string

abbreviation StatusOK :: nat where "StatusOK \<equiv> 200"
abbreviation StatusBadRequest :: nat where "StatusBadRequest \<equiv> 400"
abbreviation StatusUnauthorized :: nat where "StatusUnauthorized \<equiv> 401"
abbreviation StatusNotFound :: nat where "StatusNotFound \<equiv> 404"
abbreviation StatusMethodNotAllowed :: nat where "StatusMethodNotAllowed \<equiv> 405"

definition WriteHeader :: "nat \<Rightarrow> responseWriter \<Rightarrow> responseWriter" where
  "WriteHeader code w = (if wroteHeader w then w else w\<lparr>wroteHeader := True, status := code\<rparr>)"

definition Fprintf :: "string \<Rightarrow> responseWriter \<Rightarrow> responseWriter" where
  "Fprintf text w =
     (let w' = (if wroteHeader w then w else WriteHeader StatusOK w)
      in w'\<lparr>body := body w' @ text\<rparr>)"

definition finishRequest :: "responseWriter \<Rightarrow> responseWriter" where
  "finishRequest w = (if wroteHeader w then w else WriteHeader StatusOK w)"

definition newResponse :: responseWriter where
  "newResponse = \<lparr>wroteHeader = False, status = 0, body = ''''\<rparr>"

record request =
  Method :: string
  Header :: "string \<rightharpoonup> string list"
  Body :: string

definition headerGet :: "(string \<rightharpoonup> string list) \<Rightarrow> string \<Rightarrow> string" where
  "headerGet h key = (case h key of None \<Rightarrow> '''' | Some [] \<Rightarrow> '''' | Some (v # vs) \<Rightarrow> v)"

subsection \<open>The request handler\<close>

text \<open>
  The function \<^verbatim>\<open>main\<close> registers for every path. \<^verbatim>\<open>json.NewDecoder(r.Body).Decode\<close> is
  the parameter \<open>decode\<close>: from the bytes of the body, the decoder's error or the decoded
  \<open>repositoryRequest\<close>. The \<^verbatim>\<open>slog\<close> calls write to the log only and are left out. The
  handler drops what \<^verbatim>\<open>syncRepository\<close> returns.
\<close>

type_synonym decoder = "string \<Rightarrow> string + repositoryRequest"

definition handler ::
  "decoder \<Rightarrow> 'w runner \<Rightarrow> serverConfig \<Rightarrow> request \<Rightarrow> responseWriter \<Rightarrow> 'w system
     \<Rightarrow> responseWriter \<times> 'w system"
where
  "handler decode run config r w s =
     (let reqToken = headerGet (Header r) ''X-GIT-SYNC-TOKEN'' in
      if reqToken = '''' then
        (Fprintf ''Unauthorized\<newline>'' (WriteHeader StatusUnauthorized w), s)
      else if \<not> tokenExists config reqToken then
        (Fprintf ''Unauthorized\<newline>'' (WriteHeader StatusUnauthorized w), s)
      else if Method r = ''GET'' then
        (Fprintf ''OK\<newline>'' (WriteHeader StatusOK w), s)
      else if Method r \<noteq> ''POST'' then
        (Fprintf ''GET or POST only\<newline>'' (WriteHeader StatusMethodNotAllowed w), s)
      else
        (case decode (Body r) of
           Inl err \<Rightarrow>
             (Fprintf (''Bad Request: Failed to unmarshal json body: '' @ err @ ''\<newline>'')
                (WriteHeader StatusBadRequest w), s)
         | Inr repReq \<Rightarrow>
             if ReqName repReq = '''' then
               (Fprintf ''Bad Request: Repository name not provided\<newline>''
                  (WriteHeader StatusBadRequest w), s)
             else
               (case getRepository config (ReqName repReq) of
                  Inl err \<Rightarrow>
                    (Fprintf (''Bad Request: Repository not found: '' @ err @ ''\<newline>'')
                       (WriteHeader StatusNotFound w), s)
                | Inr repoConfig \<Rightarrow>
                    if \<not> validToken repoConfig reqToken then
                      (Fprintf ''Unauthorized\<newline>'' (WriteHeader StatusUnauthorized w), s)
                    else (w, snd (syncRepository run repoConfig s)))))"

text \<open>
  One request as the server runs it: a fresh \<^verbatim>\<open>ResponseWriter\<close>, the handler, and the
  status completed. In the result, \<open>status\<close> is the status sent and \<open>body\<close> holds the
  bytes the handler wrote, in order. The body the server sends is \<open>sentBody\<close>.
\<close>

definition serveHTTP ::
  "decoder \<Rightarrow> 'w runner \<Rightarrow> serverConfig \<Rightarrow> request \<Rightarrow> 'w system \<Rightarrow> responseWriter \<times> 'w system"
where
  "serveHTTP decode run config r s =
     (case handler decode run config r newResponse s of (w, s') \<Rightarrow> (finishRequest w, s'))"

text \<open>
  The body \<^verbatim>\<open>net/http\<close> sends. Its writer takes the bytes written for a request whose
  method is \<^verbatim>\<open>HEAD\<close> and sends none of them, and it allows no body with a status from
  100 to 199, with 204 and with 304 (\<^verbatim>\<open>bodyAllowedForStatus\<close>); the handler sets none
  of these statuses.
\<close>

definition bodyAllowedForStatus :: "nat \<Rightarrow> bool" where
  "bodyAllowedForStatus code =
     (if 100 \<le> code \<and> code \<le> 199 then False
      else if code = 204 then False
      else if code = 304 then False
      else True)"

definition sentBody :: "request \<Rightarrow> responseWriter \<Rightarrow> string" where
  "sentBody r w =
     (if Method r = ''HEAD'' \<or> \<not> bodyAllowedForStatus (status w) then '''' else body w)"

subsection \<open>The example configuration of the README\<close>

text \<open>
  The README's example: one global token, zelda, and the repositories module-logger
  (token batman) and neovim (token spiderman).
\<close>

definition moduleLogger :: repositoryConfig where
  "moduleLogger =
     \<lparr>Name = ''module-logger'', Local = ''/opt/module-logger'',
      Remote = ''https://github.com/uoracs/module-logger.git'', Branch = ''main'',
      Tokens = [''batman'']\<rparr>"

definition neovim :: repositoryConfig where
  "neovim =
     \<lparr>Name = ''neovim'', Local = ''/opt/neovim'',
      Remote = ''https://github.com/neovim/neovim.git'', Branch = ''main'',
      Tokens = [''spiderman'']\<rparr>"

definition exampleConfig :: serverConfig where
  "exampleConfig =
     \<lparr>Address = ''0.0.0.0'', Port = ''8654'', GlobalTokens = [''zelda''],
      Repositories = [moduleLogger, neovim]\<rparr>"

section \<open>Properties\<close>

lemmas http_defs = serveHTTP_def handler_def WriteHeader_def Fprintf_def finishRequest_def
  newResponse_def Let_def

lemmas example_defs = exampleConfig_def moduleLogger_def neovim_def

lemmas sent_defs = sentBody_def bodyAllowedForStatus_def

subsection \<open>Lookups\<close>

lemma slicesContains_iff: "slicesContains xs v \<longleftrightarrow> v \<in> set xs"
  by (induction xs) auto

lemma anyRepositoryHas_iff:
  "anyRepositoryHas rs key \<longleftrightarrow> (\<exists>r\<in>set rs. key \<in> set (Tokens r))"
  by (induction rs) (auto simp: slicesContains_iff)

lemma tokenExists_iff:
  "tokenExists sc key \<longleftrightarrow> (\<exists>r\<in>set (Repositories sc). validToken r key)"
  by (simp add: tokenExists_def validToken_def anyRepositoryHas_iff slicesContains_iff)

lemma findRepository_Some:
  "findRepository rs name = Some r \<Longrightarrow> r \<in> set rs \<and> Name r = name"
  by (induction rs) (auto split: if_splits)

lemma findRepository_None:
  "findRepository rs name = None \<longleftrightarrow> (\<forall>r\<in>set rs. Name r \<noteq> name)"
  by (induction rs) auto

lemma getRepository_Inr:
  "getRepository sc name = Inr r \<Longrightarrow> r \<in> set (Repositories sc) \<and> Name r = name"
  by (auto simp: getRepository_def split: option.splits dest: findRepository_Some)

lemma getRepository_unknown:
  "\<forall>r\<in>set (Repositories sc). Name r \<noteq> name \<Longrightarrow>
   getRepository sc name = Inl (''failed to find configured repository with name: '' @ name)"
  by (simp add: getRepository_def findRepository_None [THEN iffD2])

lemma getRepository_tokenExists:
  "getRepository config name = Inr repo \<Longrightarrow> validToken repo t \<Longrightarrow> tokenExists config t"
  by (auto simp: tokenExists_iff dest: getRepository_Inr)

subsection \<open>What configuration post-processing computes\<close>

text \<open>
  The loops keep the number of repositories and their names; a run that returns no error
  has met only repositories with a name. The inner loop leaves the copy's tokens followed
  by the last global token, so the whole of \<^verbatim>\<open>processConfig\<close> is described by
  \<open>processConfig_result\<close>: the default for \<^verbatim>\<open>Branch\<close> is not stored.
\<close>

lemma inheritTokens_length: "length (inheritTokens i r ts reps) = length reps"
  by (induction ts arbitrary: reps) auto

lemma Name_update_Tokens: "map Name (reps[i := (reps ! i)\<lparr>Tokens := x\<rparr>]) = map Name reps"
  by (cases "i < length reps") (simp_all add: map_update list_update_same_conv list_update_beyond)

lemma inheritTokens_names: "map Name (inheritTokens i r ts reps) = map Name reps"
  by (induction ts arbitrary: reps) (simp_all add: Name_update_Tokens)

lemma processRepositories_names:
  "processRepositories n i c = Inr c' \<Longrightarrow> n = length (Repositories c) \<Longrightarrow>
   map Name (Repositories c') = map Name (Repositories c) \<and>
   (\<forall>j. i \<le> j \<and> j < n \<longrightarrow> Name (Repositories c ! j) \<noteq> '''')"
proof (induction n i c rule: processRepositories.induct)
  case (1 n i c)
  show ?case
  proof (cases "i < n")
    case False
    with "1.prems" show ?thesis by (auto simp: processRepositories.simps)
  next
    case True
    let ?r = "Repositories c ! i"
    let ?r' = "if Branch ?r = '''' then ?r\<lparr>Branch := ''main''\<rparr> else ?r"
    let ?c = "if length (GlobalTokens c) > 0
              then c\<lparr>Repositories := inheritTokens i ?r' (GlobalTokens c) (Repositories c)\<rparr>
              else c"
    from True "1.prems"(1) have ok: "Name ?r \<noteq> ''''" "Local ?r \<noteq> ''''" "Remote ?r \<noteq> ''''"
      by (auto simp: processRepositories.simps [of n i c] Let_def split: if_splits)
    with True "1.prems"(1) have rec: "processRepositories n (Suc i) ?c = Inr c'"
      by (simp add: processRepositories.simps [of n i c] Let_def)
    have names: "map Name (Repositories ?c) = map Name (Repositories c)"
      by (simp add: inheritTokens_names)
    have len: "n = length (Repositories ?c)"
      using "1.prems"(2) by (simp add: inheritTokens_length)
    from "1.IH" [OF True refl ok(1) ok(2) ok(3) refl rec len]
    have ih: "map Name (Repositories c') = map Name (Repositories ?c)"
      "\<forall>j. Suc i \<le> j \<and> j < n \<longrightarrow> Name (Repositories ?c ! j) \<noteq> ''''"
      by blast+
    have "\<forall>j. i \<le> j \<and> j < n \<longrightarrow> Name (Repositories c ! j) \<noteq> ''''"
    proof (intro allI impI)
      fix j assume j: "i \<le> j \<and> j < n"
      show "Name (Repositories c ! j) \<noteq> ''''"
      proof (cases "j = i")
        case True with ok show ?thesis by simp
      next
        case False
        with j have "Suc i \<le> j \<and> j < n" by simp
        with ih(2) have "Name (Repositories ?c ! j) \<noteq> ''''" by blast
        moreover have "Name (Repositories ?c ! j) = map Name (Repositories ?c) ! j"
          using j len by simp
        moreover have "Name (Repositories c ! j) = map Name (Repositories c) ! j"
          using j "1.prems"(2) by simp
        ultimately show ?thesis using names by simp
      qed
    qed
    with ih(1) names show ?thesis by simp
  qed
qed

lemma processConfig_names_nonempty:
  assumes "processConfig raw = Inr config" and "r \<in> set (Repositories config)"
  shows "Name r \<noteq> ''''"
proof -
  let ?c1 = "if Address raw = '''' then raw\<lparr>Address := ''0.0.0.0''\<rparr> else raw"
  let ?c2 = "if Port ?c1 = '''' then ?c1\<lparr>Port := ''8654''\<rparr> else ?c1"
  from assms(1) have run: "processRepositories (length (Repositories ?c2)) 0 ?c2 = Inr config"
    by (simp add: processConfig_def Let_def)
  from processRepositories_names [OF run refl]
  have names: "map Name (Repositories config) = map Name (Repositories ?c2)"
    and ne: "\<forall>j. j < length (Repositories ?c2) \<longrightarrow> Name (Repositories ?c2 ! j) \<noteq> ''''"
    by simp_all
  from assms(2) obtain j where j: "j < length (Repositories config)" "Repositories config ! j = r"
    by (auto simp: in_set_conv_nth)
  from names have len: "length (Repositories config) = length (Repositories ?c2)"
    by (rule map_eq_imp_length_eq)
  have "Name r = map Name (Repositories config) ! j" using j by simp
  also have "\<dots> = Name (Repositories ?c2 ! j)" using names j len by simp
  finally show ?thesis using ne j len by simp
qed

lemma inheritTokens_last:
  "ts \<noteq> [] \<Longrightarrow>
   inheritTokens i r ts reps = reps[i := (reps ! i)\<lparr>Tokens := Tokens r @ [last ts]\<rparr>]"
proof (induction ts arbitrary: reps)
  case Nil
  then show ?case by simp
next
  case (Cons t ts)
  show ?case
  proof (cases "ts = []")
    case True
    then show ?thesis by simp
  next
    case False
    with Cons.IH show ?thesis
      by (cases "i < length reps") (simp_all add: list_update_beyond)
  qed
qed

lemma processRepositories_globals:
  "processRepositories n i c = Inr c' \<Longrightarrow>
   GlobalTokens c' = GlobalTokens c \<and> Address c' = Address c \<and> Port c' = Port c"
proof (induction n i c rule: processRepositories.induct)
  case (1 n i c)
  show ?case
  proof (cases "i < n")
    case False
    with "1.prems" show ?thesis by (simp add: processRepositories.simps)
  next
    case True
    let ?r = "Repositories c ! i"
    let ?r' = "if Branch ?r = '''' then ?r\<lparr>Branch := ''main''\<rparr> else ?r"
    let ?c = "if length (GlobalTokens c) > 0
              then c\<lparr>Repositories := inheritTokens i ?r' (GlobalTokens c) (Repositories c)\<rparr>
              else c"
    from True "1.prems"(1) have ok: "Name ?r \<noteq> ''''" "Local ?r \<noteq> ''''" "Remote ?r \<noteq> ''''"
      by (auto simp: processRepositories.simps [of n i c] Let_def split: if_splits)
    with True "1.prems"(1) have rec: "processRepositories n (Suc i) ?c = Inr c'"
      by (simp add: processRepositories.simps [of n i c] Let_def)
    from "1.IH" [OF True refl ok(1) ok(2) ok(3) refl rec] show ?thesis by simp
  qed
qed

lemma processRepositories_tokens:
  "processRepositories n i c = Inr c' \<Longrightarrow> n = length (Repositories c) \<Longrightarrow>
   GlobalTokens c \<noteq> [] \<Longrightarrow>
   Repositories c' =
     take i (Repositories c) @
     map (\<lambda>r. r\<lparr>Tokens := Tokens r @ [last (GlobalTokens c)]\<rparr>) (drop i (Repositories c))"
proof (induction n i c rule: processRepositories.induct)
  case (1 n i c)
  show ?case
  proof (cases "i < n")
    case False
    with "1.prems" show ?thesis by (simp add: processRepositories.simps)
  next
    case True
    let ?reps = "Repositories c"
    let ?r = "?reps ! i"
    let ?r' = "if Branch ?r = '''' then ?r\<lparr>Branch := ''main''\<rparr> else ?r"
    let ?c = "if length (GlobalTokens c) > 0
              then c\<lparr>Repositories := inheritTokens i ?r' (GlobalTokens c) ?reps\<rparr>
              else c"
    let ?f = "\<lambda>r. r\<lparr>Tokens := Tokens r @ [last (GlobalTokens c)]\<rparr>"
    from True "1.prems"(1) have ok: "Name ?r \<noteq> ''''" "Local ?r \<noteq> ''''" "Remote ?r \<noteq> ''''"
      by (auto simp: processRepositories.simps [of n i c] Let_def split: if_splits)
    with True "1.prems"(1) have rec: "processRepositories n (Suc i) ?c = Inr c'"
      by (simp add: processRepositories.simps [of n i c] Let_def)
    have stored: "Repositories ?c = ?reps[i := ?f ?r]"
      using "1.prems"(3) by (simp add: inheritTokens_last)
    have len: "n = length (Repositories ?c)"
      using "1.prems"(2) stored by simp
    have gts: "GlobalTokens ?c = GlobalTokens c" by simp
    from "1.IH" [OF True refl ok(1) ok(2) ok(3) refl rec len] "1.prems"(3) gts
    have "Repositories c' =
            take (Suc i) (Repositories ?c) @ map ?f (drop (Suc i) (Repositories ?c))"
      by simp
    also have "take (Suc i) (Repositories ?c) = take i ?reps @ [?f ?r]"
      using True "1.prems"(2) stored by (simp add: take_Suc_conv_app_nth)
    also have "drop (Suc i) (Repositories ?c) = drop (Suc i) ?reps"
      using stored by simp
    also have "(take i ?reps @ [?f ?r]) @ map ?f (drop (Suc i) ?reps)
               = take i ?reps @ map ?f (drop i ?reps)"
      using True "1.prems"(2) by (simp add: Cons_nth_drop_Suc [symmetric])
    finally show ?thesis .
  qed
qed

lemma processRepositories_no_globals:
  "processRepositories n i c = Inr c' \<Longrightarrow> GlobalTokens c = [] \<Longrightarrow> c' = c"
proof (induction n i c rule: processRepositories.induct)
  case (1 n i c)
  show ?case
  proof (cases "i < n")
    case False
    with "1.prems" show ?thesis by (simp add: processRepositories.simps)
  next
    case True
    let ?r = "Repositories c ! i"
    from True "1.prems"(1) have ok: "Name ?r \<noteq> ''''" "Local ?r \<noteq> ''''" "Remote ?r \<noteq> ''''"
      by (auto simp: processRepositories.simps [of n i c] Let_def split: if_splits)
    with True "1.prems" have rec: "processRepositories n (Suc i) c = Inr c'"
      by (simp add: processRepositories.simps [of n i c] Let_def)
    from "1.IH" [OF True refl ok(1) ok(2) ok(3) refl] rec "1.prems"(2) show ?thesis by simp
  qed
qed

lemma processConfig_result:
  assumes "processConfig raw = Inr config"
  shows "Address config = (if Address raw = '''' then ''0.0.0.0'' else Address raw)"
    and "Port config = (if Port raw = '''' then ''8654'' else Port raw)"
    and "GlobalTokens config = GlobalTokens raw"
    and "Repositories config =
           (if GlobalTokens raw = [] then Repositories raw
            else map (\<lambda>r. r\<lparr>Tokens := Tokens r @ [last (GlobalTokens raw)]\<rparr>) (Repositories raw))"
proof -
  let ?c1 = "if Address raw = '''' then raw\<lparr>Address := ''0.0.0.0''\<rparr> else raw"
  let ?c2 = "if Port ?c1 = '''' then ?c1\<lparr>Port := ''8654''\<rparr> else ?c1"
  from assms have run: "processRepositories (length (Repositories ?c2)) 0 ?c2 = Inr config"
    by (simp add: processConfig_def Let_def)
  from processRepositories_globals [OF run]
  show "Address config = (if Address raw = '''' then ''0.0.0.0'' else Address raw)"
    and "Port config = (if Port raw = '''' then ''8654'' else Port raw)"
    and "GlobalTokens config = GlobalTokens raw"
    by simp_all
  show "Repositories config =
           (if GlobalTokens raw = [] then Repositories raw
            else map (\<lambda>r. r\<lparr>Tokens := Tokens r @ [last (GlobalTokens raw)]\<rparr>) (Repositories raw))"
  proof (cases "GlobalTokens raw = []")
    case True
    then have "GlobalTokens ?c2 = []" by simp
    from processRepositories_no_globals [OF run this] True show ?thesis by simp
  next
    case False
    then have "GlobalTokens ?c2 \<noteq> []" by simp
    from processRepositories_tokens [OF run refl this] False show ?thesis by simp
  qed
qed

lemma processRepositories_v1_address:
  "processRepositories_v1 n i c = Inr c' \<Longrightarrow> Address_v1 c' = Address_v1 c \<and> Port_v1 c' = Port_v1 c"
proof (induction n i c rule: processRepositories_v1.induct)
  case (1 n i c)
  show ?case
  proof (cases "i < n")
    case False
    with "1.prems" show ?thesis by (simp add: processRepositories_v1.simps)
  next
    case True
    let ?r = "Repositories_v1 c ! i"
    let ?r' = "if Branch_v1 ?r = '''' then ?r\<lparr>Branch_v1 := ''main''\<rparr> else ?r"
    let ?c = "if MasterKey c \<noteq> ''''
              then c\<lparr>Repositories_v1 :=
                     (Repositories_v1 c)
                       [i := (Repositories_v1 c ! i)\<lparr>ApiKeys := ApiKeys ?r' @ [MasterKey c]\<rparr>]\<rparr>
              else c"
    from True "1.prems"(1)
    have ok: "Name_v1 ?r \<noteq> ''''" "Local_v1 ?r \<noteq> ''''" "Remote_v1 ?r \<noteq> ''''"
      by (auto simp: processRepositories_v1.simps [of n i c] Let_def split: if_splits)
    with True "1.prems"(1) have rec: "processRepositories_v1 n (Suc i) ?c = Inr c'"
      by (simp add: processRepositories_v1.simps [of n i c] Let_def)
    from "1.IH" [OF True refl ok(1) ok(2) ok(3) refl rec] show ?thesis by simp
  qed
qed

lemma processConfig_v1_address:
  assumes "processConfig_v1 raw = Inr config"
  shows "Address_v1 config = Address_v1 raw"
    and "Port_v1 config = (if Port_v1 raw = '''' then ''8654'' else Port_v1 raw)"
proof -
  let ?c2 = "if Port_v1 raw = '''' then raw\<lparr>Port_v1 := ''8654''\<rparr> else raw"
  have "(if Address_v1 raw = '''' then raw\<lparr>Address_v1 := ''''\<rparr> else raw) = raw"
    by simp
  with assms have "processRepositories_v1 (length (Repositories_v1 ?c2)) 0 ?c2 = Inr config"
    by (simp add: processConfig_v1_def Let_def)
  from processRepositories_v1_address [OF this]
  show "Address_v1 config = Address_v1 raw"
    and "Port_v1 config = (if Port_v1 raw = '''' then ''8654'' else Port_v1 raw)"
    by simp_all
qed

lemma processConfig_exampleConfig:
  "processConfig exampleConfig =
     Inr (exampleConfig\<lparr>Repositories :=
            [moduleLogger\<lparr>Tokens := [''batman'', ''zelda'']\<rparr>,
             neovim\<lparr>Tokens := [''spiderman'', ''zelda'']\<rparr>]\<rparr>)"
  by (simp add: example_defs processConfig_def processRepositories.simps)

subsection \<open>Configuration defaults and token inheritance\<close>

text \<open>
  C8. The claim: \<^verbatim>\<open>processConfig\<close> leaves the listen address as given, an empty one
  staying empty and never rewritten to a wildcard address, and defaults an empty port to
  8654. Evaluated on a configuration with both empty, \<^verbatim>\<open>processConfig\<close> defaults the
  port and stores the wildcard address 0.0.0.0 in place of the empty one. The variant
  with \<^verbatim>\<open>MasterKey\<close> keeps every address (\<open>processConfig_v1_address\<close>).
\<close>

theorem processConfig_rewrites_empty_address:
  "processConfig \<lparr>Address = '''', Port = '''', GlobalTokens = [], Repositories = []\<rparr>
     = Inr \<lparr>Address = ''0.0.0.0'', Port = ''8654'', GlobalTokens = [], Repositories = []\<rparr>"
  by (simp add: processConfig_def processRepositories.simps)

text \<open>
  C1. The claim: after \<^verbatim>\<open>processConfig\<close> every repository's tokens hold its own tokens
  and all the global tokens, so every global token is valid for every repository.
  Evaluated on two global tokens, zelda and link, and one repository with the token abc,
  \<^verbatim>\<open>processConfig\<close> stores abc and link for the repository: each pass of the inner
  loop appends to the tokens of the copy \<^verbatim>\<open>r\<close>, so only the last global token is
  kept, and zelda is not valid for the repository.
\<close>

theorem processConfig_keeps_last_global_token_only:
  "processConfig
     \<lparr>Address = ''0.0.0.0'', Port = ''8654'', GlobalTokens = [''zelda'', ''link''],
      Repositories =
        [\<lparr>Name = ''docs'', Local = ''/opt/docs'', Remote = ''https://example.org/docs.git'',
          Branch = ''main'', Tokens = [''abc'']\<rparr>]\<rparr>
   = Inr
     \<lparr>Address = ''0.0.0.0'', Port = ''8654'', GlobalTokens = [''zelda'', ''link''],
      Repositories =
        [\<lparr>Name = ''docs'', Local = ''/opt/docs'', Remote = ''https://example.org/docs.git'',
          Branch = ''main'', Tokens = [''abc'', ''link'']\<rparr>]\<rparr>
   \<and> \<not> validToken
         \<lparr>Name = ''docs'', Local = ''/opt/docs'', Remote = ''https://example.org/docs.git'',
          Branch = ''main'', Tokens = [''abc'', ''link'']\<rparr> ''zelda''"
  by (simp add: processConfig_def processRepositories.simps validToken_def)

subsection \<open>The sync engine\<close>

text \<open>
  C2. \<^verbatim>\<open>syncRepository\<close> runs git fetch, then git reset, then git clean, in the
  repository's directory and in that order. When a command fails, the commands run so far
  are that command and those before it, none after it, and the error returned names the
  step: the fetch and reset errors are wrapped as "failed to sync repository" around
  "failed to fetch origin" and "failed to reset origin", the clean error as "failed to
  clean repository" around "failed to clean untracked files". When all three succeed, no
  error is returned and exactly the three commands were run. The world after each command
  is the one the next command starts from.
\<close>

theorem syncRepository_sequence:
  "(let fetch = \<lparr>Args = [''git'', ''fetch'', ''origin'', Branch r], Dir = Local r\<rparr>;
        reset = \<lparr>Args = [''git'', ''reset'', ''--hard'', ''origin/'' @ Branch r], Dir = Local r\<rparr>;
        clean = \<lparr>Args = [''git'', ''clean'', ''-fdx''], Dir = Local r\<rparr>
    in
      (run fetch (world s) = (Some e, wa) \<longrightarrow>
         syncRepository run r s =
           (Some (''failed to sync repository: failed to fetch origin: '' @ e),
            \<lparr>world = wa, invocations = invocations s @ [fetch]\<rparr>)) \<and>
      (run fetch (world s) = (None, wa) \<and> run reset wa = (Some e, wb) \<longrightarrow>
         syncRepository run r s =
           (Some (''failed to sync repository: failed to reset origin: '' @ e),
            \<lparr>world = wb, invocations = invocations s @ [fetch, reset]\<rparr>)) \<and>
      (run fetch (world s) = (None, wa) \<and> run reset wa = (None, wb) \<and>
       run clean wb = (Some e, wc) \<longrightarrow>
         syncRepository run r s =
           (Some (''failed to clean repository: failed to clean untracked files: '' @ e),
            \<lparr>world = wc, invocations = invocations s @ [fetch, reset, clean]\<rparr>)) \<and>
      (run fetch (world s) = (None, wa) \<and> run reset wa = (None, wb) \<and>
       run clean wb = (None, wc) \<longrightarrow>
         syncRepository run r s =
           (None, \<lparr>world = wc, invocations = invocations s @ [fetch, reset, clean]\<rparr>)))"
  by (simp add: syncRepository_def fetchRepository_def resetRepository_def cleanRepository_def
      cmdRun_def Let_def)

text \<open>
  The four cases on the README's neovim repository, with a process boundary that counts
  the commands run: fetch fails, reset fails, clean fails, nothing fails.
\<close>

theorem syncRepository_sequence_witness:
  "syncRepository
     (\<lambda>cmd w. (if hd (tl (Args cmd)) = ''fetch'' then Some ''exit status 128'' else None, Suc w))
     neovim \<lparr>world = 0, invocations = []\<rparr>
   = (Some ''failed to sync repository: failed to fetch origin: exit status 128'',
      \<lparr>world = 1,
       invocations = [\<lparr>Args = [''git'', ''fetch'', ''origin'', ''main''], Dir = ''/opt/neovim''\<rparr>]\<rparr>)
   \<and>
   syncRepository
     (\<lambda>cmd w. (if hd (tl (Args cmd)) = ''reset'' then Some ''exit status 128'' else None, Suc w))
     neovim \<lparr>world = 0, invocations = []\<rparr>
   = (Some ''failed to sync repository: failed to reset origin: exit status 128'',
      \<lparr>world = 2,
       invocations =
         [\<lparr>Args = [''git'', ''fetch'', ''origin'', ''main''], Dir = ''/opt/neovim''\<rparr>,
          \<lparr>Args = [''git'', ''reset'', ''--hard'', ''origin/main''], Dir = ''/opt/neovim''\<rparr>]\<rparr>)
   \<and>
   syncRepository
     (\<lambda>cmd w. (if hd (tl (Args cmd)) = ''clean'' then Some ''exit status 1'' else None, Suc w))
     neovim \<lparr>world = 0, invocations = []\<rparr>
   = (Some ''failed to clean repository: failed to clean untracked files: exit status 1'',
      \<lparr>world = 3,
       invocations =
         [\<lparr>Args = [''git'', ''fetch'', ''origin'', ''main''], Dir = ''/opt/neovim''\<rparr>,
          \<lparr>Args = [''git'', ''reset'', ''--hard'', ''origin/main''], Dir = ''/opt/neovim''\<rparr>,
          \<lparr>Args = [''git'', ''clean'', ''-fdx''], Dir = ''/opt/neovim''\<rparr>]\<rparr>)
   \<and>
   syncRepository (\<lambda>cmd w. (None, Suc w)) neovim \<lparr>world = 0, invocations = []\<rparr>
   = (None,
      \<lparr>world = 3,
       invocations =
         [\<lparr>Args = [''git'', ''fetch'', ''origin'', ''main''], Dir = ''/opt/neovim''\<rparr>,
          \<lparr>Args = [''git'', ''reset'', ''--hard'', ''origin/main''], Dir = ''/opt/neovim''\<rparr>,
          \<lparr>Args = [''git'', ''clean'', ''-fdx''], Dir = ''/opt/neovim''\<rparr>]\<rparr>)"
proof -
  let ?s = "\<lparr>world = 0 :: nat, invocations = []\<rparr>"
  have a: "syncRepository
     (\<lambda>cmd w. (if hd (tl (Args cmd)) = ''fetch'' then Some ''exit status 128'' else None, Suc w))
     neovim ?s
   = (Some ''failed to sync repository: failed to fetch origin: exit status 128'',
      \<lparr>world = 1,
       invocations = [\<lparr>Args = [''git'', ''fetch'', ''origin'', ''main''], Dir = ''/opt/neovim''\<rparr>]\<rparr>)"
    using syncRepository_sequence
      [where run = "\<lambda>cmd w. (if hd (tl (Args cmd)) = ''fetch'' then Some ''exit status 128'' else None, Suc w)"
         and r = neovim and s = ?s and e = "''exit status 128''" and wa = 1]
    by (simp add: neovim_def Let_def)
  have b: "syncRepository
     (\<lambda>cmd w. (if hd (tl (Args cmd)) = ''reset'' then Some ''exit status 128'' else None, Suc w))
     neovim ?s
   = (Some ''failed to sync repository: failed to reset origin: exit status 128'',
      \<lparr>world = 2,
       invocations =
         [\<lparr>Args = [''git'', ''fetch'', ''origin'', ''main''], Dir = ''/opt/neovim''\<rparr>,
          \<lparr>Args = [''git'', ''reset'', ''--hard'', ''origin/main''], Dir = ''/opt/neovim''\<rparr>]\<rparr>)"
    using syncRepository_sequence
      [where run = "\<lambda>cmd w. (if hd (tl (Args cmd)) = ''reset'' then Some ''exit status 128'' else None, Suc w)"
         and r = neovim and s = ?s and e = "''exit status 128''" and wa = 1 and wb = 2]
    by (simp add: neovim_def Let_def)
  have c: "syncRepository
     (\<lambda>cmd w. (if hd (tl (Args cmd)) = ''clean'' then Some ''exit status 1'' else None, Suc w))
     neovim ?s
   = (Some ''failed to clean repository: failed to clean untracked files: exit status 1'',
      \<lparr>world = 3,
       invocations =
         [\<lparr>Args = [''git'', ''fetch'', ''origin'', ''main''], Dir = ''/opt/neovim''\<rparr>,
          \<lparr>Args = [''git'', ''reset'', ''--hard'', ''origin/main''], Dir = ''/opt/neovim''\<rparr>,
          \<lparr>Args = [''git'', ''clean'', ''-fdx''], Dir = ''/opt/neovim''\<rparr>]\<rparr>)"
    using syncRepository_sequence
      [where run = "\<lambda>cmd w. (if hd (tl (Args cmd)) = ''clean'' then Some ''exit status 1'' else None, Suc w)"
         and r = neovim and s = ?s and e = "''exit status 1''" and wa = 1 and wb = 2 and wc = 3]
    by (simp add: neovim_def Let_def)
  have d: "syncRepository (\<lambda>cmd w. (None, Suc w)) neovim ?s
   = (None,
      \<lparr>world = 3,
       invocations =
         [\<lparr>Args = [''git'', ''fetch'', ''origin'', ''main''], Dir = ''/opt/neovim''\<rparr>,
          \<lparr>Args = [''git'', ''reset'', ''--hard'', ''origin/main''], Dir = ''/opt/neovim''\<rparr>,
          \<lparr>Args = [''git'', ''clean'', ''-fdx''], Dir = ''/opt/neovim''\<rparr>]\<rparr>)"
    using syncRepository_sequence
      [where run = "\<lambda>cmd w. (None, Suc w)"
         and r = neovim and s = ?s and wa = 1 and wb = 2 and wc = 3]
    by (simp add: neovim_def Let_def)
  from a b c d show ?thesis by simp
qed

subsection \<open>The request handler\<close>

text \<open>
  C3. A POST request with a non-empty token, a body that decodes to a non-empty name, a
  repository of that name and the token among that repository's tokens is answered with
  status 200, whatever the process boundary \<open>run\<close> does, so whether or not
  \<^verbatim>\<open>syncRepository\<close> returns an error: the handler writes nothing on this path and
  drops the result of \<^verbatim>\<open>syncRepository\<close>, whose commands are the only effect.
\<close>

theorem authorized_post_status_ok:
  assumes "Method r = ''POST''"
    and "headerGet (Header r) ''X-GIT-SYNC-TOKEN'' \<noteq> ''''"
    and "decode (Body r) = Inr repReq"
    and "ReqName repReq \<noteq> ''''"
    and "getRepository config (ReqName repReq) = Inr repo"
    and "validToken repo (headerGet (Header r) ''X-GIT-SYNC-TOKEN'')"
  shows "status (fst (serveHTTP decode run config r s)) = StatusOK \<and>
         snd (serveHTTP decode run config r s) = snd (syncRepository run repo s)"
proof -
  from assms(5) have "repo \<in> set (Repositories config)"
    by (simp add: getRepository_Inr)
  with assms(6) have "tokenExists config (headerGet (Header r) ''X-GIT-SYNC-TOKEN'')"
    by (auto simp: tokenExists_iff)
  with assms show ?thesis
    by (simp add: http_defs)
qed

text \<open>
  On the processed example of the README, a POST for neovim with the token spiderman
  while every git command fails: the sync returns the fetch error and the status is 200.
\<close>

theorem authorized_post_status_ok_witness:
  \<open>\<exists>config. processConfig exampleConfig = Inr config \<and>
     status (fst (serveHTTP
       (\<lambda>b. if b = ''{"name": "neovim"}'' then Inr \<lparr>ReqName = ''neovim''\<rparr>
            else Inl ''unexpected end of JSON input'')
       (\<lambda>cmd w. (Some ''exit status 128'', Suc w)) config
       \<lparr>Method = ''POST'', Header = [''X-GIT-SYNC-TOKEN'' \<mapsto> [''spiderman'']],
        Body = ''{"name": "neovim"}''\<rparr>
       \<lparr>world = 0, invocations = []\<rparr>)) = StatusOK \<and>
     getRepository config ''neovim'' = Inr (neovim\<lparr>Tokens := [''spiderman'', ''zelda'']\<rparr>) \<and>
     fst (syncRepository (\<lambda>cmd w. (Some ''exit status 128'', Suc w))
            (neovim\<lparr>Tokens := [''spiderman'', ''zelda'']\<rparr>) \<lparr>world = 0, invocations = []\<rparr>)
       = Some ''failed to sync repository: failed to fetch origin: exit status 128''\<close>
proof -
  let ?config = "exampleConfig\<lparr>Repositories :=
            [moduleLogger\<lparr>Tokens := [''batman'', ''zelda'']\<rparr>,
             neovim\<lparr>Tokens := [''spiderman'', ''zelda'']\<rparr>]\<rparr>"
  let ?run = "\<lambda>(cmd :: command) (w :: nat). (Some ''exit status 128'', Suc w)"
  let ?decode = \<open>\<lambda>b. if b = ''{"name": "neovim"}'' then Inr \<lparr>ReqName = ''neovim''\<rparr>
            else Inl ''unexpected end of JSON input''\<close>
  let ?r = \<open>\<lparr>Method = ''POST'', Header = [''X-GIT-SYNC-TOKEN'' \<mapsto> [''spiderman'']],
        Body = ''{"name": "neovim"}''\<rparr>\<close>
  let ?repo = "neovim\<lparr>Tokens := [''spiderman'', ''zelda'']\<rparr>"
  have look: "getRepository ?config ''neovim'' = Inr ?repo"
    by (simp add: getRepository_def example_defs)
  have "status (fst (serveHTTP ?decode ?run ?config ?r \<lparr>world = 0, invocations = []\<rparr>)) = StatusOK"
    using authorized_post_status_ok
      [where r = ?r and decode = ?decode and repReq = "\<lparr>ReqName = ''neovim''\<rparr>"
         and config = ?config and repo = ?repo and run = ?run
         and s = "\<lparr>world = 0, invocations = []\<rparr>"] look
    by (simp add: headerGet_def validToken_def neovim_def)
  moreover have "fst (syncRepository ?run ?repo \<lparr>world = 0, invocations = []\<rparr>)
       = Some ''failed to sync repository: failed to fetch origin: exit status 128''"
    by (simp add: syncRepository_def fetchRepository_def cmdRun_def)
  ultimately show ?thesis
    using processConfig_exampleConfig look by blast
qed

text \<open>
  C4. In a configuration that \<^verbatim>\<open>processConfig\<close> returned, let the token
  \<open>t\<close> be valid for repository \<open>A\<close> and for no other repository. A POST
  request with token \<open>t\<close> whose name \<^verbatim>\<open>getRepository\<close> resolves to a repository
  \<open>B\<close> other than \<open>A\<close> is answered with 401 and runs no command,
  although \<^verbatim>\<open>tokenExists\<close> accepts \<open>t\<close>.
\<close>

theorem wrong_scope_post_unauthorized:
  assumes "processConfig raw = Inr config"
    and "A \<in> set (Repositories config)"
    and "validToken A t"
    and "\<forall>rc\<in>set (Repositories config). rc \<noteq> A \<longrightarrow> \<not> validToken rc t"
    and "Method r = ''POST''"
    and "headerGet (Header r) ''X-GIT-SYNC-TOKEN'' = t"
    and "decode (Body r) = Inr repReq"
    and "getRepository config (ReqName repReq) = Inr B"
    and "B \<noteq> A"
  shows "tokenExists config t \<and>
         serveHTTP decode run config r s =
           (\<lparr>wroteHeader = True, status = StatusUnauthorized, body = ''Unauthorized\<newline>''\<rparr>, s)"
proof -
  from assms(2,3) have coarse: "tokenExists config t"
    by (auto simp: tokenExists_iff)
  from assms(8) have B: "B \<in> set (Repositories config)" "Name B = ReqName repReq"
    by (simp_all add: getRepository_Inr)
  with assms(1) have name: "ReqName repReq \<noteq> ''''"
    using processConfig_names_nonempty by metis
  from B(1) assms(4,9) have "\<not> validToken B t" by blast
  with coarse name assms(5-8) show ?thesis
    by (simp add: http_defs)
qed

text \<open>
  On the processed example of the README: batman is valid for module-logger only, and a
  POST for neovim with batman is refused.
\<close>

theorem wrong_scope_post_unauthorized_witness:
  \<open>\<exists>config. processConfig exampleConfig = Inr config \<and>
     tokenExists config ''batman'' \<and>
     getRepository config ''neovim'' = Inr (neovim\<lparr>Tokens := [''spiderman'', ''zelda'']\<rparr>) \<and>
     serveHTTP
       (\<lambda>b. if b = ''{"name": "neovim"}'' then Inr \<lparr>ReqName = ''neovim''\<rparr>
            else Inl ''unexpected end of JSON input'')
       (\<lambda>cmd w. (None, Suc w)) config
       \<lparr>Method = ''POST'', Header = [''X-GIT-SYNC-TOKEN'' \<mapsto> [''batman'']],
        Body = ''{"name": "neovim"}''\<rparr>
       \<lparr>world = 0, invocations = []\<rparr>
     = (\<lparr>wroteHeader = True, status = StatusUnauthorized, body = ''Unauthorized\<newline>''\<rparr>,
        \<lparr>world = 0, invocations = []\<rparr>)\<close>
proof -
  let ?A = "moduleLogger\<lparr>Tokens := [''batman'', ''zelda'']\<rparr>"
  let ?B = "neovim\<lparr>Tokens := [''spiderman'', ''zelda'']\<rparr>"
  let ?config = "exampleConfig\<lparr>Repositories := [?A, ?B]\<rparr>"
  let ?run = "\<lambda>(cmd :: command) (w :: nat). (None :: string option, Suc w)"
  let ?decode = \<open>\<lambda>b. if b = ''{"name": "neovim"}'' then Inr \<lparr>ReqName = ''neovim''\<rparr>
            else Inl ''unexpected end of JSON input''\<close>
  let ?r = \<open>\<lparr>Method = ''POST'', Header = [''X-GIT-SYNC-TOKEN'' \<mapsto> [''batman'']],
        Body = ''{"name": "neovim"}''\<rparr>\<close>
  have look: "getRepository ?config ''neovim'' = Inr ?B"
    by (simp add: getRepository_def example_defs)
  have "tokenExists ?config ''batman'' \<and>
        serveHTTP ?decode ?run ?config ?r \<lparr>world = 0, invocations = []\<rparr>
        = (\<lparr>wroteHeader = True, status = StatusUnauthorized, body = ''Unauthorized\<newline>''\<rparr>,
           \<lparr>world = 0, invocations = []\<rparr>)"
    using wrong_scope_post_unauthorized
      [where raw = exampleConfig and config = ?config and A = ?A and B = ?B
         and t = "''batman''" and r = ?r and decode = ?decode
         and repReq = "\<lparr>ReqName = ''neovim''\<rparr>" and run = ?run
         and s = "\<lparr>world = 0, invocations = []\<rparr>"]
      processConfig_exampleConfig look
    by (simp add: headerGet_def validToken_def example_defs)
  with processConfig_exampleConfig look show ?thesis by blast
qed

text \<open>
  C5. A request whose token header is missing or empty, or whose token is in no
  repository's tokens, is answered with 401, the handler writing the body Unauthorized,
  whatever its method and body, and runs no command.
\<close>

theorem unknown_token_unauthorized:
  assumes "headerGet (Header r) ''X-GIT-SYNC-TOKEN'' = t"
    and "t = '''' \<or> (\<forall>rc\<in>set (Repositories config). t \<notin> set (Tokens rc))"
  shows "serveHTTP decode run config r s =
           (\<lparr>wroteHeader = True, status = StatusUnauthorized, body = ''Unauthorized\<newline>''\<rparr>, s)"
proof -
  from assms(2) have "t = '''' \<or> \<not> tokenExists config t"
    by (auto simp: tokenExists_def anyRepositoryHas_iff)
  with assms(1) show ?thesis
    by (auto simp: http_defs)
qed

text \<open>
  On the processed example of the README: a POST with the unknown token joker, and a GET
  without the header.
\<close>

theorem unknown_token_unauthorized_witness:
  \<open>\<exists>config. processConfig exampleConfig = Inr config \<and>
     serveHTTP
       (\<lambda>b. Inr \<lparr>ReqName = ''neovim''\<rparr>) (\<lambda>cmd w. (None, Suc w)) config
       \<lparr>Method = ''POST'', Header = [''X-GIT-SYNC-TOKEN'' \<mapsto> [''joker'']],
        Body = ''{"name": "neovim"}''\<rparr>
       \<lparr>world = 0, invocations = []\<rparr>
     = (\<lparr>wroteHeader = True, status = StatusUnauthorized, body = ''Unauthorized\<newline>''\<rparr>,
        \<lparr>world = 0, invocations = []\<rparr>) \<and>
     serveHTTP
       (\<lambda>b. Inr \<lparr>ReqName = ''neovim''\<rparr>) (\<lambda>cmd w. (None, Suc w)) config
       \<lparr>Method = ''GET'', Header = Map.empty, Body = ''''\<rparr>
       \<lparr>world = 0, invocations = []\<rparr>
     = (\<lparr>wroteHeader = True, status = StatusUnauthorized, body = ''Unauthorized\<newline>''\<rparr>,
        \<lparr>world = 0, invocations = []\<rparr>)\<close>
proof -
  let ?config = "exampleConfig\<lparr>Repositories :=
            [moduleLogger\<lparr>Tokens := [''batman'', ''zelda'']\<rparr>,
             neovim\<lparr>Tokens := [''spiderman'', ''zelda'']\<rparr>]\<rparr>"
  let ?run = "\<lambda>(cmd :: command) (w :: nat). (None :: string option, Suc w)"
  let ?decode = "\<lambda>b :: string. Inr \<lparr>ReqName = ''neovim''\<rparr> :: string + repositoryRequest"
  let ?post = \<open>\<lparr>Method = ''POST'', Header = [''X-GIT-SYNC-TOKEN'' \<mapsto> [''joker'']],
        Body = ''{"name": "neovim"}''\<rparr>\<close>
  let ?get = "\<lparr>Method = ''GET'', Header = Map.empty, Body = ''''\<rparr>"
  let ?s = "\<lparr>world = 0 :: nat, invocations = []\<rparr>"
  have a: "serveHTTP ?decode ?run ?config ?post ?s
     = (\<lparr>wroteHeader = True, status = StatusUnauthorized, body = ''Unauthorized\<newline>''\<rparr>, ?s)"
    using unknown_token_unauthorized
      [where r = ?post and t = "''joker''" and config = ?config and decode = ?decode
         and run = ?run and s = ?s]
    by (simp add: headerGet_def example_defs)
  have b: "serveHTTP ?decode ?run ?config ?get ?s
     = (\<lparr>wroteHeader = True, status = StatusUnauthorized, body = ''Unauthorized\<newline>''\<rparr>, ?s)"
    using unknown_token_unauthorized
      [where r = ?get and t = "''''" and config = ?config and decode = ?decode
         and run = ?run and s = ?s]
    by (simp add: headerGet_def)
  from a b processConfig_exampleConfig show ?thesis by blast
qed

text \<open>
  C6, as stated, fails for the empty token. A repository may list the empty string among
  its tokens; \<^verbatim>\<open>validToken\<close> then accepts the empty token, but the handler refuses
  every request whose token header is empty before it looks at the tokens, so a GET
  request with the empty token gets 401, not 200.
\<close>

theorem get_with_empty_token_counterexample:
  "processConfig
     \<lparr>Address = ''0.0.0.0'', Port = ''8654'', GlobalTokens = [],
      Repositories =
        [\<lparr>Name = ''docs'', Local = ''/opt/docs'', Remote = ''https://example.org/docs.git'',
          Branch = ''main'', Tokens = ['''']\<rparr>]\<rparr>
   = Inr
     \<lparr>Address = ''0.0.0.0'', Port = ''8654'', GlobalTokens = [],
      Repositories =
        [\<lparr>Name = ''docs'', Local = ''/opt/docs'', Remote = ''https://example.org/docs.git'',
          Branch = ''main'', Tokens = ['''']\<rparr>]\<rparr>
   \<and> validToken
        \<lparr>Name = ''docs'', Local = ''/opt/docs'', Remote = ''https://example.org/docs.git'',
          Branch = ''main'', Tokens = ['''']\<rparr>
        (headerGet [''X-GIT-SYNC-TOKEN'' \<mapsto> ['''']] ''X-GIT-SYNC-TOKEN'')
   \<and> serveHTTP (\<lambda>b. Inl ''EOF'') (\<lambda>cmd w. (None, w))
        \<lparr>Address = ''0.0.0.0'', Port = ''8654'', GlobalTokens = [],
         Repositories =
           [\<lparr>Name = ''docs'', Local = ''/opt/docs'', Remote = ''https://example.org/docs.git'',
             Branch = ''main'', Tokens = ['''']\<rparr>]\<rparr>
        \<lparr>Method = ''GET'', Header = [''X-GIT-SYNC-TOKEN'' \<mapsto> ['''']], Body = ''''\<rparr>
        \<lparr>world = (), invocations = []\<rparr>
     = (\<lparr>wroteHeader = True, status = StatusUnauthorized, body = ''Unauthorized\<newline>''\<rparr>,
        \<lparr>world = (), invocations = []\<rparr>)"
  by (simp add: processConfig_def processRepositories.simps validToken_def headerGet_def
      http_defs)

text \<open>
  C6, amended. A GET request with a non-empty token that is valid for at least one
  repository is answered with status 200 and the body OK, and runs no command.
\<close>

theorem get_with_valid_token_ok:
  assumes "Method r = ''GET''"
    and "headerGet (Header r) ''X-GIT-SYNC-TOKEN'' \<noteq> ''''"
    and "rc \<in> set (Repositories config)"
    and "validToken rc (headerGet (Header r) ''X-GIT-SYNC-TOKEN'')"
  shows "serveHTTP decode run config r s =
           (\<lparr>wroteHeader = True, status = StatusOK, body = ''OK\<newline>''\<rparr>, s)"
proof -
  from assms(3,4) have "tokenExists config (headerGet (Header r) ''X-GIT-SYNC-TOKEN'')"
    by (auto simp: tokenExists_iff)
  with assms(1,2) show ?thesis
    by (simp add: http_defs)
qed

text \<open>
  On the processed example of the README: a GET with the token batman.
\<close>

theorem get_with_valid_token_ok_witness:
  "\<exists>config. processConfig exampleConfig = Inr config \<and>
     serveHTTP (\<lambda>b. Inl ''EOF'') (\<lambda>cmd w. (None, Suc w)) config
       \<lparr>Method = ''GET'', Header = [''X-GIT-SYNC-TOKEN'' \<mapsto> [''batman'']], Body = ''''\<rparr>
       \<lparr>world = 0, invocations = []\<rparr>
     = (\<lparr>wroteHeader = True, status = StatusOK, body = ''OK\<newline>''\<rparr>,
        \<lparr>world = 0, invocations = []\<rparr>)"
proof -
  let ?A = "moduleLogger\<lparr>Tokens := [''batman'', ''zelda'']\<rparr>"
  let ?config = "exampleConfig\<lparr>Repositories :=
                   [?A, neovim\<lparr>Tokens := [''spiderman'', ''zelda'']\<rparr>]\<rparr>"
  let ?run = "\<lambda>(cmd :: command) (w :: nat). (None :: string option, Suc w)"
  let ?decode = "\<lambda>b :: string. Inl ''EOF'' :: string + repositoryRequest"
  let ?r = "\<lparr>Method = ''GET'', Header = [''X-GIT-SYNC-TOKEN'' \<mapsto> [''batman'']], Body = ''''\<rparr>"
  let ?s = "\<lparr>world = 0 :: nat, invocations = []\<rparr>"
  have "serveHTTP ?decode ?run ?config ?r ?s
     = (\<lparr>wroteHeader = True, status = StatusOK, body = ''OK\<newline>''\<rparr>, ?s)"
    using get_with_valid_token_ok
      [where r = ?r and rc = ?A and config = ?config and decode = ?decode and run = ?run
         and s = ?s]
    by (simp add: headerGet_def validToken_def example_defs)
  with processConfig_exampleConfig show ?thesis by blast
qed

text \<open>
  C7, as stated, fails for the empty token: with the empty string among a repository's
  tokens, a PUT request with the empty token gets 401, not 405.
\<close>

theorem shape_check_with_empty_token_counterexample:
  "processConfig
     \<lparr>Address = ''0.0.0.0'', Port = ''8654'', GlobalTokens = [],
      Repositories =
        [\<lparr>Name = ''docs'', Local = ''/opt/docs'', Remote = ''https://example.org/docs.git'',
          Branch = ''main'', Tokens = ['''']\<rparr>]\<rparr>
   = Inr
     \<lparr>Address = ''0.0.0.0'', Port = ''8654'', GlobalTokens = [],
      Repositories =
        [\<lparr>Name = ''docs'', Local = ''/opt/docs'', Remote = ''https://example.org/docs.git'',
          Branch = ''main'', Tokens = ['''']\<rparr>]\<rparr>
   \<and> validToken
        \<lparr>Name = ''docs'', Local = ''/opt/docs'', Remote = ''https://example.org/docs.git'',
          Branch = ''main'', Tokens = ['''']\<rparr>
        (headerGet [''X-GIT-SYNC-TOKEN'' \<mapsto> ['''']] ''X-GIT-SYNC-TOKEN'')
   \<and> serveHTTP (\<lambda>b. Inl ''EOF'') (\<lambda>cmd w. (None, w))
        \<lparr>Address = ''0.0.0.0'', Port = ''8654'', GlobalTokens = [],
         Repositories =
           [\<lparr>Name = ''docs'', Local = ''/opt/docs'', Remote = ''https://example.org/docs.git'',
             Branch = ''main'', Tokens = ['''']\<rparr>]\<rparr>
        \<lparr>Method = ''PUT'', Header = [''X-GIT-SYNC-TOKEN'' \<mapsto> ['''']], Body = ''''\<rparr>
        \<lparr>world = (), invocations = []\<rparr>
     = (\<lparr>wroteHeader = True, status = StatusUnauthorized, body = ''Unauthorized\<newline>''\<rparr>,
        \<lparr>world = (), invocations = []\<rparr>)"
  by (simp add: processConfig_def processRepositories.simps validToken_def headerGet_def
      http_defs)

text \<open>
  C7, amended. With a non-empty token that is valid for some repository: a method other
  than GET and POST gets 405; a POST whose body fails to decode gets 400; a POST whose
  decoded name is empty gets 400; a POST whose non-empty name is the name of no
  repository gets 404. None of them runs a command.
\<close>

theorem request_shape_statuses:
  assumes "headerGet (Header r) ''X-GIT-SYNC-TOKEN'' \<noteq> ''''"
    and "rc \<in> set (Repositories config)"
    and "validToken rc (headerGet (Header r) ''X-GIT-SYNC-TOKEN'')"
  shows "(Method r \<noteq> ''GET'' \<and> Method r \<noteq> ''POST'' \<longrightarrow>
            status (fst (serveHTTP decode run config r s)) = StatusMethodNotAllowed \<and>
            snd (serveHTTP decode run config r s) = s) \<and>
         (Method r = ''POST'' \<and> decode (Body r) = Inl err \<longrightarrow>
            status (fst (serveHTTP decode run config r s)) = StatusBadRequest \<and>
            snd (serveHTTP decode run config r s) = s) \<and>
         (Method r = ''POST'' \<and> decode (Body r) = Inr repReq \<and> ReqName repReq = '''' \<longrightarrow>
            status (fst (serveHTTP decode run config r s)) = StatusBadRequest \<and>
            snd (serveHTTP decode run config r s) = s) \<and>
         (Method r = ''POST'' \<and> decode (Body r) = Inr repReq \<and> ReqName repReq \<noteq> '''' \<and>
          (\<forall>x\<in>set (Repositories config). Name x \<noteq> ReqName repReq) \<longrightarrow>
            status (fst (serveHTTP decode run config r s)) = StatusNotFound \<and>
            snd (serveHTTP decode run config r s) = s)"
proof -
  from assms(2,3) have coarse: "tokenExists config (headerGet (Header r) ''X-GIT-SYNC-TOKEN'')"
    by (auto simp: tokenExists_iff)
  have m: ?thesis if "Method r \<noteq> ''POST''"
    using that assms(1) coarse by (simp add: http_defs)
  have p: ?thesis if "Method r = ''POST''"
    using that assms(1) coarse by (auto simp: http_defs getRepository_unknown)
  from m p show ?thesis by blast
qed

text \<open>
  On the processed example of the README, with the token batman: a PUT, a POST with an
  empty body, a POST with an empty name, and a POST for the unknown repository emacs.
\<close>

theorem request_shape_statuses_witness:
  \<open>\<exists>config. processConfig exampleConfig = Inr config \<and>
     status (fst (serveHTTP (\<lambda>b. Inl ''EOF'') (\<lambda>cmd w. (None, Suc w)) config
       \<lparr>Method = ''PUT'', Header = [''X-GIT-SYNC-TOKEN'' \<mapsto> [''batman'']], Body = ''''\<rparr>
       \<lparr>world = 0, invocations = []\<rparr>)) = StatusMethodNotAllowed \<and>
     status (fst (serveHTTP (\<lambda>b. Inl ''EOF'') (\<lambda>cmd w. (None, Suc w)) config
       \<lparr>Method = ''POST'', Header = [''X-GIT-SYNC-TOKEN'' \<mapsto> [''batman'']], Body = ''''\<rparr>
       \<lparr>world = 0, invocations = []\<rparr>)) = StatusBadRequest \<and>
     status (fst (serveHTTP (\<lambda>b. Inr \<lparr>ReqName = ''''\<rparr>) (\<lambda>cmd w. (None, Suc w)) config
       \<lparr>Method = ''POST'', Header = [''X-GIT-SYNC-TOKEN'' \<mapsto> [''batman'']], Body = ''{}''\<rparr>
       \<lparr>world = 0, invocations = []\<rparr>)) = StatusBadRequest \<and>
     status (fst (serveHTTP (\<lambda>b. Inr \<lparr>ReqName = ''emacs''\<rparr>) (\<lambda>cmd w. (None, Suc w)) config
       \<lparr>Method = ''POST'', Header = [''X-GIT-SYNC-TOKEN'' \<mapsto> [''batman'']],
        Body = ''{"name": "emacs"}''\<rparr>
       \<lparr>world = 0, invocations = []\<rparr>)) = StatusNotFound\<close>
proof -
  let ?A = "moduleLogger\<lparr>Tokens := [''batman'', ''zelda'']\<rparr>"
  let ?config = "exampleConfig\<lparr>Repositories :=
                   [?A, neovim\<lparr>Tokens := [''spiderman'', ''zelda'']\<rparr>]\<rparr>"
  let ?run = "\<lambda>(cmd :: command) (w :: nat). (None :: string option, Suc w)"
  let ?eof = "\<lambda>b :: string. Inl ''EOF'' :: string + repositoryRequest"
  let ?h = "[''X-GIT-SYNC-TOKEN'' \<mapsto> [''batman'']]"
  let ?s = "\<lparr>world = 0 :: nat, invocations = []\<rparr>"
  let ?emacs = \<open>\<lparr>Method = ''POST'', Header = ?h, Body = ''{"name": "emacs"}''\<rparr>\<close>
  have a: "status (fst (serveHTTP ?eof ?run ?config
             \<lparr>Method = ''PUT'', Header = ?h, Body = ''''\<rparr> ?s)) = StatusMethodNotAllowed"
    using request_shape_statuses
      [where r = "\<lparr>Method = ''PUT'', Header = ?h, Body = ''''\<rparr>" and rc = ?A
         and config = ?config and decode = ?eof and run = ?run and s = ?s]
    by (simp add: headerGet_def validToken_def example_defs)
  have b: "status (fst (serveHTTP ?eof ?run ?config
             \<lparr>Method = ''POST'', Header = ?h, Body = ''''\<rparr> ?s)) = StatusBadRequest"
    using request_shape_statuses
      [where r = "\<lparr>Method = ''POST'', Header = ?h, Body = ''''\<rparr>" and rc = ?A
         and config = ?config and decode = ?eof and run = ?run and s = ?s
         and err = "''EOF''"]
    by (simp add: headerGet_def validToken_def example_defs)
  have c: "status (fst (serveHTTP (\<lambda>b. Inr \<lparr>ReqName = ''''\<rparr>) ?run ?config
             \<lparr>Method = ''POST'', Header = ?h, Body = ''{}''\<rparr> ?s)) = StatusBadRequest"
    using request_shape_statuses
      [where r = "\<lparr>Method = ''POST'', Header = ?h, Body = ''{}''\<rparr>" and rc = ?A
         and config = ?config and decode = "\<lambda>b. Inr \<lparr>ReqName = ''''\<rparr>" and run = ?run
         and s = ?s and repReq = "\<lparr>ReqName = ''''\<rparr>"]
    by (simp add: headerGet_def validToken_def example_defs)
  have d: "status (fst (serveHTTP (\<lambda>b. Inr \<lparr>ReqName = ''emacs''\<rparr>) ?run ?config
             ?emacs ?s)) = StatusNotFound"
    using request_shape_statuses
      [where r = ?emacs and rc = ?A
         and config = ?config and decode = "\<lambda>b. Inr \<lparr>ReqName = ''emacs''\<rparr>" and run = ?run
         and s = ?s and repReq = "\<lparr>ReqName = ''emacs''\<rparr>"]
    by (simp add: headerGet_def validToken_def example_defs)
  from a b c d processConfig_exampleConfig show ?thesis by blast
qed

text \<open>
  C9, as stated, fails in three ways. The handler writes no body for the fully authorized
  POST, so that response has an empty body. For a request whose method is HEAD the
  handler writes a body (here with status 405), but none of it is sent. And the 404 body
  repeats the requested name as it was decoded, so a name with the escape character puts
  that character into the body, which is then not plain text.
\<close>

theorem response_body_counterexample:
  \<open>processConfig
     \<lparr>Address = ''0.0.0.0'', Port = ''8654'', GlobalTokens = [],
      Repositories =
        [\<lparr>Name = ''docs'', Local = ''/opt/docs'', Remote = ''https://example.org/docs.git'',
          Branch = ''main'', Tokens = [''abc'']\<rparr>]\<rparr>
   = Inr
     \<lparr>Address = ''0.0.0.0'', Port = ''8654'', GlobalTokens = [],
      Repositories =
        [\<lparr>Name = ''docs'', Local = ''/opt/docs'', Remote = ''https://example.org/docs.git'',
          Branch = ''main'', Tokens = [''abc'']\<rparr>]\<rparr>
   \<and> serveHTTP
       (\<lambda>b. if b = ''{"name": "docs"}'' then Inr \<lparr>ReqName = ''docs''\<rparr>
            else Inl ''unexpected end of JSON input'')
       (\<lambda>cmd w. (None, w))
       \<lparr>Address = ''0.0.0.0'', Port = ''8654'', GlobalTokens = [],
        Repositories =
          [\<lparr>Name = ''docs'', Local = ''/opt/docs'', Remote = ''https://example.org/docs.git'',
            Branch = ''main'', Tokens = [''abc'']\<rparr>]\<rparr>
       \<lparr>Method = ''POST'', Header = [''X-GIT-SYNC-TOKEN'' \<mapsto> [''abc'']],
        Body = ''{"name": "docs"}''\<rparr>
       \<lparr>world = (), invocations = []\<rparr>
     = (\<lparr>wroteHeader = True, status = StatusOK, body = ''''\<rparr>,
        \<lparr>world = (),
         invocations =
           [\<lparr>Args = [''git'', ''fetch'', ''origin'', ''main''], Dir = ''/opt/docs''\<rparr>,
            \<lparr>Args = [''git'', ''reset'', ''--hard'', ''origin/main''], Dir = ''/opt/docs''\<rparr>,
            \<lparr>Args = [''git'', ''clean'', ''-fdx''], Dir = ''/opt/docs''\<rparr>]\<rparr>)
   \<and> sentBody
       \<lparr>Method = ''POST'', Header = [''X-GIT-SYNC-TOKEN'' \<mapsto> [''abc'']],
        Body = ''{"name": "docs"}''\<rparr>
       \<lparr>wroteHeader = True, status = StatusOK, body = ''''\<rparr> = ''''
   \<and> serveHTTP (\<lambda>b. Inl ''EOF'') (\<lambda>cmd w. (None, w))
       \<lparr>Address = ''0.0.0.0'', Port = ''8654'', GlobalTokens = [],
        Repositories =
          [\<lparr>Name = ''docs'', Local = ''/opt/docs'', Remote = ''https://example.org/docs.git'',
            Branch = ''main'', Tokens = [''abc'']\<rparr>]\<rparr>
       \<lparr>Method = ''HEAD'', Header = [''X-GIT-SYNC-TOKEN'' \<mapsto> [''abc'']], Body = ''''\<rparr>
       \<lparr>world = (), invocations = []\<rparr>
     = (\<lparr>wroteHeader = True, status = StatusMethodNotAllowed,
         body = ''GET or POST only\<newline>''\<rparr>,
        \<lparr>world = (), invocations = []\<rparr>)
   \<and> sentBody
       \<lparr>Method = ''HEAD'', Header = [''X-GIT-SYNC-TOKEN'' \<mapsto> [''abc'']], Body = ''''\<rparr>
       \<lparr>wroteHeader = True, status = StatusMethodNotAllowed,
        body = ''GET or POST only\<newline>''\<rparr> = ''''
   \<and> sentBody
       \<lparr>Method = ''POST'', Header = [''X-GIT-SYNC-TOKEN'' \<mapsto> [''abc'']],
        Body = ''{"name": "'' @ [CHR 0x5C] @ ''u001b"}''\<rparr>
       (fst (serveHTTP
          (\<lambda>b. if b = ''{"name": "'' @ [CHR 0x5C] @ ''u001b"}'' then Inr \<lparr>ReqName = [CHR 0x1B]\<rparr>
               else Inl ''unexpected end of JSON input'')
          (\<lambda>cmd w. (None, w))
          \<lparr>Address = ''0.0.0.0'', Port = ''8654'', GlobalTokens = [],
           Repositories =
             [\<lparr>Name = ''docs'', Local = ''/opt/docs'',
               Remote = ''https://example.org/docs.git'', Branch = ''main'',
               Tokens = [''abc'']\<rparr>]\<rparr>
          \<lparr>Method = ''POST'', Header = [''X-GIT-SYNC-TOKEN'' \<mapsto> [''abc'']],
           Body = ''{"name": "'' @ [CHR 0x5C] @ ''u001b"}''\<rparr>
          \<lparr>world = (), invocations = []\<rparr>))
     = ''Bad Request: Repository not found: failed to find configured repository with name: ''
       @ [CHR 0x1B, CHR ''\<newline>'']\<close>
  by (simp add: processConfig_def processRepositories.simps http_defs headerGet_def
      tokenExists_def validToken_def getRepository_def syncRepository_def fetchRepository_def
      resetRepository_def cleanRepository_def cmdRun_def sent_defs)

text \<open>
  C9, amended. The response to a request whose method is HEAD and the response to a fully
  authorized POST (non-empty token, decodable body, non-empty name of a repository, token
  valid for that repository) are sent with an empty body. Every other response is sent
  with a body that is not empty, ends with a newline, and is one of: Unauthorized, OK,
  GET or POST only, Bad Request: Repository name not provided (each followed by a
  newline); the decode message followed by the decoder's error and a newline; the
  not-found message followed by the requested name as decoded and a newline. Nothing is
  said about the bytes of the decoder's error and of the name.
\<close>

theorem sent_body_empty_or_newline_terminated:
  "(let tok = headerGet (Header r) ''X-GIT-SYNC-TOKEN'';
        sent = sentBody r (fst (serveHTTP decode run config r s));
        authorized =
          (tok \<noteq> '''' \<and> Method r = ''POST'' \<and>
           (\<exists>repReq repo. decode (Body r) = Inr repReq \<and> ReqName repReq \<noteq> '''' \<and>
              getRepository config (ReqName repReq) = Inr repo \<and> validToken repo tok))
    in (Method r = ''HEAD'' \<or> authorized \<longrightarrow> sent = '''') \<and>
       (Method r \<noteq> ''HEAD'' \<and> \<not> authorized \<longrightarrow>
          sent \<noteq> '''' \<and> last sent = CHR ''\<newline>'' \<and>
          (sent = ''Unauthorized\<newline>'' \<or>
           sent = ''OK\<newline>'' \<or>
           sent = ''GET or POST only\<newline>'' \<or>
           sent = ''Bad Request: Repository name not provided\<newline>'' \<or>
           (\<exists>err. decode (Body r) = Inl err \<and>
              sent = ''Bad Request: Failed to unmarshal json body: '' @ err @ ''\<newline>'') \<or>
           (\<exists>repReq. decode (Body r) = Inr repReq \<and>
              sent = ''Bad Request: Repository not found: '' @
                     ''failed to find configured repository with name: '' @
                     ReqName repReq @ ''\<newline>''))))"
proof -
  let ?tok = "headerGet (Header r) ''X-GIT-SYNC-TOKEN''"
  let ?w = "fst (serveHTTP decode run config r s)"
  have st: "bodyAllowedForStatus (status ?w)"
    by (auto simp: http_defs bodyAllowedForStatus_def split: sum.splits)
  have sent: "sentBody r ?w = (if Method r = ''HEAD'' then '''' else body ?w)"
    using st by (simp add: sentBody_def)
  have coarse: "tokenExists config t"
    if "findRepository (Repositories config) n = Some x" and "validToken x t" for n x t
    using that by (auto simp: tokenExists_iff dest: findRepository_Some)
  show ?thesis
    unfolding Let_def sent
    by (auto simp: http_defs getRepository_def
        split: sum.splits option.splits dest: coarse)
qed

text \<open>
  On the processed example of the README: a POST for neovim with the global token zelda
  and a HEAD without a token are sent with an empty body; a POST for neovim with batman,
  refused, has a body that ends with a newline.
\<close>

theorem sent_body_empty_or_newline_terminated_witness:
  \<open>\<exists>config. processConfig exampleConfig = Inr config \<and>
     sentBody
       \<lparr>Method = ''POST'', Header = [''X-GIT-SYNC-TOKEN'' \<mapsto> [''zelda'']],
        Body = ''{"name": "neovim"}''\<rparr>
       (fst (serveHTTP (\<lambda>b. Inr \<lparr>ReqName = ''neovim''\<rparr>) (\<lambda>cmd w. (None, Suc w)) config
          \<lparr>Method = ''POST'', Header = [''X-GIT-SYNC-TOKEN'' \<mapsto> [''zelda'']],
           Body = ''{"name": "neovim"}''\<rparr>
          \<lparr>world = 0, invocations = []\<rparr>)) = '''' \<and>
     sentBody
       \<lparr>Method = ''HEAD'', Header = Map.empty, Body = ''''\<rparr>
       (fst (serveHTTP (\<lambda>b. Inr \<lparr>ReqName = ''neovim''\<rparr>) (\<lambda>cmd w. (None, Suc w)) config
          \<lparr>Method = ''HEAD'', Header = Map.empty, Body = ''''\<rparr>
          \<lparr>world = 0, invocations = []\<rparr>)) = '''' \<and>
     sentBody
       \<lparr>Method = ''POST'', Header = [''X-GIT-SYNC-TOKEN'' \<mapsto> [''batman'']],
        Body = ''{"name": "neovim"}''\<rparr>
       (fst (serveHTTP (\<lambda>b. Inr \<lparr>ReqName = ''neovim''\<rparr>) (\<lambda>cmd w. (None, Suc w)) config
          \<lparr>Method = ''POST'', Header = [''X-GIT-SYNC-TOKEN'' \<mapsto> [''batman'']],
           Body = ''{"name": "neovim"}''\<rparr>
          \<lparr>world = 0, invocations = []\<rparr>)) \<noteq> '''' \<and>
     last (sentBody
       \<lparr>Method = ''POST'', Header = [''X-GIT-SYNC-TOKEN'' \<mapsto> [''batman'']],
        Body = ''{"name": "neovim"}''\<rparr>
       (fst (serveHTTP (\<lambda>b. Inr \<lparr>ReqName = ''neovim''\<rparr>) (\<lambda>cmd w. (None, Suc w)) config
          \<lparr>Method = ''POST'', Header = [''X-GIT-SYNC-TOKEN'' \<mapsto> [''batman'']],
           Body = ''{"name": "neovim"}''\<rparr>
          \<lparr>world = 0, invocations = []\<rparr>))) = CHR ''\<newline>''\<close>
proof -
  let ?B = "neovim\<lparr>Tokens := [''spiderman'', ''zelda'']\<rparr>"
  let ?config = "exampleConfig\<lparr>Repositories :=
                   [moduleLogger\<lparr>Tokens := [''batman'', ''zelda'']\<rparr>, ?B]\<rparr>"
  let ?run = "\<lambda>(cmd :: command) (w :: nat). (None :: string option, Suc w)"
  let ?decode = "\<lambda>b :: string. Inr \<lparr>ReqName = ''neovim''\<rparr> :: string + repositoryRequest"
  let ?s = "\<lparr>world = 0 :: nat, invocations = []\<rparr>"
  let ?zelda = \<open>\<lparr>Method = ''POST'', Header = [''X-GIT-SYNC-TOKEN'' \<mapsto> [''zelda'']],
        Body = ''{"name": "neovim"}''\<rparr>\<close>
  let ?batman = \<open>\<lparr>Method = ''POST'', Header = [''X-GIT-SYNC-TOKEN'' \<mapsto> [''batman'']],
        Body = ''{"name": "neovim"}''\<rparr>\<close>
  let ?head = "\<lparr>Method = ''HEAD'', Header = Map.empty, Body = ''''\<rparr>"
  have look: "getRepository ?config ''neovim'' = Inr ?B"
    by (simp add: getRepository_def example_defs)
  have a: "sentBody ?zelda (fst (serveHTTP ?decode ?run ?config ?zelda ?s)) = ''''"
    using sent_body_empty_or_newline_terminated
      [where r = ?zelda and decode = ?decode and run = ?run and config = ?config and s = ?s]
      look
    by (simp add: headerGet_def validToken_def neovim_def Let_def)
  have h: "sentBody ?head (fst (serveHTTP ?decode ?run ?config ?head ?s)) = ''''"
    using sent_body_empty_or_newline_terminated
      [where r = ?head and decode = ?decode and run = ?run and config = ?config and s = ?s]
    by (simp add: Let_def)
  have b: "sentBody ?batman (fst (serveHTTP ?decode ?run ?config ?batman ?s)) \<noteq> '''' \<and>
           last (sentBody ?batman (fst (serveHTTP ?decode ?run ?config ?batman ?s)))
             = CHR ''\<newline>''"
    using sent_body_empty_or_newline_terminated
      [where r = ?batman and decode = ?decode and run = ?run and config = ?config and s = ?s]
      look
    by (simp add: headerGet_def validToken_def neovim_def Let_def)
  from a h b processConfig_exampleConfig show ?thesis by blast
qed

text \<open>
  C10. When the configuration lists no repositories, \<^verbatim>\<open>processConfig\<close> succeeds,
  \<^verbatim>\<open>tokenExists\<close> is false for every token, the global tokens included, and every
  request is answered with 401 and runs no command.
\<close>

theorem no_repositories_all_unauthorized:
  assumes "Repositories raw = []"
  shows "\<exists>config. processConfig raw = Inr config \<and> \<not> tokenExists config t \<and>
           serveHTTP decode run config r s =
             (\<lparr>wroteHeader = True, status = StatusUnauthorized, body = ''Unauthorized\<newline>''\<rparr>, s)"
proof -
  from assms have "\<exists>config. processConfig raw = Inr config \<and> Repositories config = []"
    by (simp add: processConfig_def processRepositories.simps Let_def)
  then obtain config where c: "processConfig raw = Inr config" "Repositories config = []"
    by blast
  then have none: "\<not> tokenExists config k" for k
    by (simp add: tokenExists_def)
  then have "serveHTTP decode run config r s =
      (\<lparr>wroteHeader = True, status = StatusUnauthorized, body = ''Unauthorized\<newline>''\<rparr>, s)"
    by (simp add: http_defs)
  with c(1) none show ?thesis by blast
qed

text \<open>
  A configuration with the global token zelda and no repositories: a GET with zelda is
  refused.
\<close>

theorem no_repositories_all_unauthorized_witness:
  "\<exists>config.
     processConfig \<lparr>Address = '''', Port = '''', GlobalTokens = [''zelda''], Repositories = []\<rparr>
       = Inr config \<and>
     \<not> tokenExists config ''zelda'' \<and>
     serveHTTP (\<lambda>b. Inl ''EOF'') (\<lambda>cmd w. (None, Suc w)) config
       \<lparr>Method = ''GET'', Header = [''X-GIT-SYNC-TOKEN'' \<mapsto> [''zelda'']], Body = ''''\<rparr>
       \<lparr>world = 0, invocations = []\<rparr>
     = (\<lparr>wroteHeader = True, status = StatusUnauthorized, body = ''Unauthorized\<newline>''\<rparr>,
        \<lparr>world = 0, invocations = []\<rparr>)"
  using no_repositories_all_unauthorized
    [where raw = "\<lparr>Address = '''', Port = '''', GlobalTokens = [''zelda''], Repositories = []\<rparr>"
       and t = "''zelda''" and decode = "\<lambda>b. Inl ''EOF''" and run = "\<lambda>cmd w. (None, Suc w)"
       and r = "\<lparr>Method = ''GET'', Header = [''X-GIT-SYNC-TOKEN'' \<mapsto> [''zelda'']], Body = ''''\<rparr>"
       and s = "\<lparr>world = 0, invocations = []\<rparr>"]
  by simp

end
